theory Spec2Isabelle
  imports Complex_Main "HOL-Library.Multiset"
begin

section \<open>Data model\<close>

text \<open>
  The aggregation and advice code of MoneyMate lives in two React components:
  \<^verbatim>\<open>AIRecommendations\<close> (functions \<^verbatim>\<open>loadFinancialData\<close> and
  \<^verbatim>\<open>getPersonalizedTips\<close>) and \<^verbatim>\<open>BudgetDashboard\<close> (the \<^verbatim>\<open>useMemo\<close> totals and the
  debt-free timeline). Both are embedded here as pure functions over lists.

  Numbers: a JavaScript \<^verbatim>\<open>number\<close> holding a money amount is modelled as an exact
  rational (\<^typ>\<open>rat\<close>), and the operators \<^verbatim>\<open>+ - * /\<close> as the exact operations. The code
  computes in IEEE doubles, so a result of the model is the code's result wherever the
  double operations involved are exact. That is the case for sums and differences of
  whole numbers of magnitude up to \<open>2^53\<close>, and \<^verbatim>\<open>Math.ceil\<close> of a quotient of two such
  numbers is the exact ceiling; the predicate \<open>wholeAmounts\<close> below says so of a list of
  amounts. Every theorem that compares sums taken in different orders, or takes the
  ceiling of a quotient, carries it as a hypothesis. The amounts are not validated
  anywhere, so negative amounts are values of the model as they are of the code.

  Objects: a JavaScript object used as a dictionary is an association list in key order,
  the order in which the keys were first assigned. That is the order of the code for
  keys that are ordinary labels: not written with digits only (such keys are listed first
  by \<^verbatim>\<open>Object.keys\<close>), and not a name that every object inherits from
  \<^verbatim>\<open>Object.prototype\<close> (reading such a key gives a function, not \<^verbatim>\<open>undefined\<close>). The
  predicate \<open>ordinaryLabel\<close> below says so of a key, and every theorem about the keys or
  the entries of the expense breakdown carries it as a hypothesis on the categories.
  Reading a missing key gives \<^verbatim>\<open>undefined\<close>, here \<^term>\<open>None\<close>.

  The transaction type is the union \<^verbatim>\<open>'income' | 'expense'\<close> of the \<^verbatim>\<open>Transaction\<close>
  interface, which the table definition enforces with a check constraint.
\<close>

datatype TransactionType = Income | Expense

record Transaction =
  id_txn :: string
  type_txn :: TransactionType
  amount :: rat
  category :: string
  description :: string
  date :: string

record Debt =
  id_debt :: string
  amount_debt :: rat
  interestRate :: rat
  minimumPayment :: rat
  description_debt :: string
  date_debt :: string

datatype MonthlyTrend = Increasing | Decreasing | Stable

type_synonym Breakdown = "(string \<times> rat) list"

record FinancialData =
  totalIncome :: rat
  totalExpenses :: rat
  balance :: rat
  savingsRate :: rat
  expenseBreakdown :: Breakdown
  topExpenseCategory :: string
  biggestExpense :: rat
  monthlyTrend :: MonthlyTrend

section \<open>JavaScript objects and operators used by the code\<close>

text \<open>Writing an own property: an existing key keeps its place, a new key goes last.\<close>

fun store :: "Breakdown \<Rightarrow> string \<Rightarrow> rat \<Rightarrow> Breakdown" where
  "store [] k v = [(k, v)]"
| "store ((k', v') # kvs) k v =
     (if k' = k then (k, v) # kvs else (k', v') # store kvs k v)"

text \<open>\<^verbatim>\<open>obj[k] = v\<close>. The key \<^verbatim>\<open>__proto__\<close> is not a property of the object but the
  setter inherited from \<^verbatim>\<open>Object.prototype\<close>, which ignores every value that is not an
  object: the assignment leaves the object as it was.\<close>

definition assign :: "Breakdown \<Rightarrow> string \<Rightarrow> rat \<Rightarrow> Breakdown" where
  "assign obj k v = (if k = ''__proto__'' then obj else store obj k v)"

text \<open>\<^verbatim>\<open>obj[k]\<close> and \<^verbatim>\<open>Object.keys(obj)\<close>.\<close>

definition lookup :: "Breakdown \<Rightarrow> string \<Rightarrow> rat option" where
  "lookup obj k = map_of obj k"

definition keys :: "Breakdown \<Rightarrow> string list" where
  "keys obj = map fst obj"

text \<open>\<^verbatim>\<open>x || 0\<close>: \<^verbatim>\<open>undefined\<close> and \<^verbatim>\<open>0\<close> are falsy, every other number is kept.\<close>

definition orZero :: "rat option \<Rightarrow> rat" where
  "orZero x = (case x of None \<Rightarrow> 0 | Some v \<Rightarrow> if v = 0 then 0 else v)"

text \<open>\<^verbatim>\<open>x > y\<close> on possibly undefined operands: \<^verbatim>\<open>undefined\<close> converts to NaN and
  every comparison with NaN is false.\<close>

definition jsGreater :: "rat option \<Rightarrow> rat option \<Rightarrow> bool" where
  "jsGreater x y = (case x of None \<Rightarrow> False
                    | Some a \<Rightarrow> (case y of None \<Rightarrow> False | Some b \<Rightarrow> a > b))"

section \<open>\<^verbatim>\<open>loadFinancialData\<close>\<close>

text \<open>The reducer \<^verbatim>\<open>reduce((sum, t) => sum + t.amount, 0)\<close>.\<close>

definition sumAmounts :: "Transaction list \<Rightarrow> rat" where
  "sumAmounts ts = foldl (\<lambda>sum t. sum + amount t) 0 ts"

text \<open>The callback of the \<^verbatim>\<open>forEach\<close> that fills \<^verbatim>\<open>expenseBreakdown\<close>, and the loop
  itself, started on the empty object.\<close>

definition addExpense :: "Breakdown \<Rightarrow> Transaction \<Rightarrow> Breakdown" where
  "addExpense breakdown expense =
     assign breakdown (category expense)
       (orZero (lookup breakdown (category expense)) + amount expense)"

definition fillBreakdown :: "Transaction list \<Rightarrow> Breakdown" where
  "fillBreakdown expenses = foldl addExpense [] expenses"

text \<open>The callback \<^verbatim>\<open>(a, b) => expenseBreakdown[a] > expenseBreakdown[b] ? a : b\<close> and the
  reduction over \<^verbatim>\<open>Object.keys(expenseBreakdown)\<close> that starts from \<^verbatim>\<open>'Other'\<close>.\<close>

definition pickLarger :: "Breakdown \<Rightarrow> string \<Rightarrow> string \<Rightarrow> string" where
  "pickLarger breakdown a b =
     (if jsGreater (lookup breakdown a) (lookup breakdown b) then a else b)"

definition topCategory :: "Breakdown \<Rightarrow> string" where
  "topCategory breakdown = foldl (pickLarger breakdown) ''Other'' (keys breakdown)"

text \<open>The body of the branch \<^verbatim>\<open>transactions.length > 0\<close>: the record handed to
  \<^verbatim>\<open>setFinancialData\<close>.\<close>

definition financialSnapshot :: "Transaction list \<Rightarrow> FinancialData" where
  "financialSnapshot transactions =
     (let income = filter (\<lambda>t. type_txn t = Income) transactions;
          expenses = filter (\<lambda>t. type_txn t = Expense) transactions;
          totalIncome = sumAmounts income;
          totalExpenses = sumAmounts expenses;
          balance = totalIncome - totalExpenses;
          savingsRate = (if totalIncome > 0 then (balance / totalIncome) * 100 else 0);
          expenseBreakdown = fillBreakdown expenses;
          topExpenseCategory = topCategory expenseBreakdown;
          biggestExpense = orZero (lookup expenseBreakdown topExpenseCategory);
          monthlyTrend = (if balance > 0 then Increasing else Decreasing)
      in \<lparr> totalIncome = totalIncome,
           totalExpenses = totalExpenses,
           balance = balance,
           savingsRate = savingsRate,
           expenseBreakdown = expenseBreakdown,
           topExpenseCategory = topExpenseCategory,
           biggestExpense = biggestExpense,
           monthlyTrend = monthlyTrend \<rparr>)"

text \<open>
  What the two awaited calls deliver: no signed-in user (the function returns at once), a
  query error (thrown, caught and logged), or the rows of the user's transactions.
\<close>

datatype Fetched = NoUser | QueryError | Rows "Transaction list"

text \<open>
  The component state \<^verbatim>\<open>financialData\<close> (initially \<^verbatim>\<open>null\<close>) is passed in and returned:
  \<^verbatim>\<open>setFinancialData\<close> is called only when at least one row came back.
\<close>

definition loadFinancialData :: "Fetched \<Rightarrow> FinancialData option \<Rightarrow> FinancialData option" where
  "loadFinancialData fetched financialData =
     (case fetched of
        NoUser \<Rightarrow> financialData
      | QueryError \<Rightarrow> financialData
      | Rows transactions \<Rightarrow>
          if length transactions > 0 then Some (financialSnapshot transactions)
          else financialData)"

section \<open>\<^verbatim>\<open>getPersonalizedTips\<close>\<close>

record Tip =
  icon :: string
  title :: string
  description_tip :: string
  action :: string

text \<open>Decimal digits of a natural number.\<close>

fun showNat :: "nat \<Rightarrow> string" where
  "showNat n = (if n < 10 then [char_of (48 + n)]
                else showNat (n div 10) @ [char_of (48 + n mod 10)])"

declare showNat.simps [simp del]

text \<open>\<^verbatim>\<open>x.toFixed(1)\<close> on an exact value: one decimal, halves rounded away from zero,
  the sign kept in front (magnitudes below \<^verbatim>\<open>1e21\<close>).\<close>

definition toFixed1 :: "rat \<Rightarrow> string" where
  "toFixed1 x =
     (let n = nat \<lfloor>\<bar>x\<bar> * 10 + 1 / 2\<rfloor>
      in (if x < 0 then ''-'' else '''') @ showNat (n div 10) @ ''.'' @ showNat (n mod 10))"

text \<open>\<^verbatim>\<open>((part / whole) * 100).toFixed(1)\<close>; dividing by zero gives an infinity or NaN,
  which \<^verbatim>\<open>toFixed\<close> prints by name.\<close>

definition percentText :: "rat \<Rightarrow> rat \<Rightarrow> string" where
  "percentText part whole =
     (if whole = 0
      then (if part > 0 then ''Infinity'' else if part < 0 then ''-Infinity'' else ''NaN'')
      else toFixed1 ((part / whole) * 100))"

definition boostSavingsTip :: Tip where
  "boostSavingsTip =
     \<lparr> icon = ''PiggyBank'',
       title = ''Boost Your Savings'',
       description_tip = ''Aim to save 20% of your income for financial security'',
       action = ''Set up automatic transfers to a savings account'' \<rparr>"

definition biggestExpenseTip :: "FinancialData \<Rightarrow> Tip" where
  "biggestExpenseTip data =
     \<lparr> icon = ''Target'',
       title = ''Optimize Your Biggest Expense'',
       description_tip = topExpenseCategory data @ '' is taking up ''
          @ percentText (biggestExpense data) (totalExpenses data) @ ''% of your spending'',
       action = ''Look for ways to reduce this category'' \<rparr>"

definition overspendingTip :: Tip where
  "overspendingTip =
     \<lparr> icon = ''AlertCircle'',
       title = ''Address Overspending'',
       description_tip = ''You're spending more than you earn'',
       action = ''Focus on reducing expenses or increasing income'' \<rparr>"

definition doingGreatTip :: Tip where
  "doingGreatTip =
     \<lparr> icon = ''CheckCircle'',
       title = ''You're Doing Great!'',
       description_tip = ''Your finances are well-balanced'',
       action = ''Consider investing your extra savings'' \<rparr>"

text \<open>The array \<^verbatim>\<open>tips\<close> is threaded through the four \<^verbatim>\<open>if\<close> statements; \<^verbatim>\<open>push\<close>
  appends at the end.\<close>

definition getPersonalizedTips :: "FinancialData \<Rightarrow> Tip list" where
  "getPersonalizedTips data =
     (let tips0 = [];
          tips1 = (if savingsRate data < 20 then tips0 @ [boostSavingsTip] else tips0);
          tips2 = (if biggestExpense data > totalExpenses data * 0.4
                   then tips1 @ [biggestExpenseTip data] else tips1);
          tips3 = (if balance data < 0 then tips2 @ [overspendingTip] else tips2);
          tips4 = (if length tips3 = 0 then tips3 @ [doingGreatTip] else tips3)
      in tips4)"

section \<open>\<^verbatim>\<open>BudgetDashboard\<close>: totals and debt-free timeline\<close>

record Totals =
  totalIncome_memo :: rat
  totalExpenses_memo :: rat
  balance_memo :: rat
  totalDebt :: rat
  monthlyDebtPayment :: rat
  availableForDebt :: rat

text \<open>The \<^verbatim>\<open>useMemo\<close> block over the component's transactions and debts.\<close>

definition dashboardTotals :: "Transaction list \<Rightarrow> Debt list \<Rightarrow> Totals" where
  "dashboardTotals transactions debts =
     (let income = foldl (\<lambda>sum t. sum + amount t) 0
                     (filter (\<lambda>t. type_txn t = Income) transactions);
          expenses = foldl (\<lambda>sum t. sum + amount t) 0
                       (filter (\<lambda>t. type_txn t = Expense) transactions);
          totalDebt = foldl (\<lambda>sum debt. sum + amount_debt debt) 0 debts;
          monthlyDebtPayment = foldl (\<lambda>sum debt. sum + minimumPayment debt) 0 debts;
          availableForDebt = income - expenses
      in \<lparr> totalIncome_memo = income,
           totalExpenses_memo = expenses,
           balance_memo = income - expenses,
           totalDebt = totalDebt,
           monthlyDebtPayment = monthlyDebtPayment,
           availableForDebt = availableForDebt \<rparr>)"

text \<open>The headline expression of the "Debt-Free Timeline" panel: a number of months
  (\<^verbatim>\<open>Math.ceil\<close>), or the text "Focus on income first". The expression is evaluated
  only where the panel is rendered, see \<open>debtStrategyCard\<close>.\<close>

datatype Timeline = Months int | FocusOnIncomeFirst

definition debtFreeTimeline :: "Totals \<Rightarrow> Timeline" where
  "debtFreeTimeline m =
     (if availableForDebt m > monthlyDebtPayment m
      then Months \<lceil>totalDebt m / (availableForDebt m - monthlyDebtPayment m)\<rceil>
      else FocusOnIncomeFirst)"

text \<open>What the debt tab shows as timeline: the panel sits inside the "AI Debt Strategy"
  card, which is rendered under \<^verbatim>\<open>totalDebt > 0 &&\<close>; without a positive total debt there
  is no card and no estimate.\<close>

definition debtStrategyCard :: "Totals \<Rightarrow> Timeline option" where
  "debtStrategyCard m = (if totalDebt m > 0 then Some (debtFreeTimeline m) else None)"

section \<open>Inputs on which the model and the running code agree\<close>

text \<open>The property names that an object literal inherits from \<^verbatim>\<open>Object.prototype\<close>.\<close>

definition objectPrototypeNames :: "string list" where
  "objectPrototypeNames =
     [''__proto__'', ''constructor'', ''hasOwnProperty'', ''isPrototypeOf'',
      ''propertyIsEnumerable'', ''toLocaleString'', ''toString'', ''valueOf'',
      ''__defineGetter__'', ''__defineSetter__'', ''__lookupGetter__'',
      ''__lookupSetter__'']"

definition digitChar :: "char \<Rightarrow> bool" where
  "digitChar c = (c \<in> set ''0123456789'')"

text \<open>An ordinary label is neither written with digits only nor an inherited name.\<close>

definition ordinaryLabel :: "string \<Rightarrow> bool" where
  "ordinaryLabel c =
     (\<not> (c \<noteq> [] \<and> list_all digitChar c) \<and> c \<notin> set objectPrototypeNames)"

text \<open>The categories of the expenses of a transaction list are ordinary labels.\<close>

definition ordinaryCategories :: "Transaction list \<Rightarrow> bool" where
  "ordinaryCategories transactions =
     list_all (\<lambda>t. ordinaryLabel (category t))
       (filter (\<lambda>t. type_txn t = Expense) transactions)"

text \<open>Whole numbers whose absolute values add up to at most \<open>2^53\<close>: every sum of some of
  them, in any order, is a whole number of magnitude at most \<open>2^53\<close>, which a double holds
  exactly.\<close>

definition wholeAmounts :: "rat list \<Rightarrow> bool" where
  "wholeAmounts xs =
     (list_all (\<lambda>x. of_int \<lfloor>x\<rfloor> = x) xs \<and> sum_list (map abs xs) \<le> 2 ^ 53)"

section \<open>Sample data\<close>

text \<open>A transaction with the given type, amount and category; the other fields play no
  part in the aggregation.\<close>

definition txn :: "TransactionType \<Rightarrow> rat \<Rightarrow> string \<Rightarrow> Transaction" where
  "txn ty a c =
     \<lparr> id_txn = '''', type_txn = ty, amount = a, category = c,
       description = '''', date = '''' \<rparr>"

text \<open>The scenario of the specification: a salary of 5000, 1200 spent on food and 800 on
  shopping.\<close>

definition scenarioTransactions :: "Transaction list" where
  "scenarioTransactions =
     [txn Income 5000 ''Salary'', txn Expense 1200 ''Food & Dining'',
      txn Expense 800 ''Shopping'']"

text \<open>A debt with the given principal and minimum payment.\<close>

definition debt :: "rat \<Rightarrow> rat \<Rightarrow> Debt" where
  "debt p m =
     \<lparr> id_debt = '''', amount_debt = p, interestRate = 0, minimumPayment = m,
       description_debt = '''', date_debt = '''' \<rparr>"

text \<open>A month in which 1500 of housing costs meet a salary of 1000.\<close>

definition overspentTransactions :: "Transaction list" where
  "overspentTransactions = [txn Income 1000 ''Salary'', txn Expense 1500 ''Housing'']"


definition salaryOnlyTransactions :: "Transaction list" where
  "salaryOnlyTransactions = [txn Income 100 ''Salary'']"

text \<open>Two expenses of equal amount in different categories, and a month with income only.\<close>

definition tiedTransactions :: "Transaction list" where
  "tiedTransactions = [txn Expense 100 ''Food & Dining'', txn Expense 100 ''Shopping'']"

definition incomeOnlyTransactions :: "Transaction list" where
  "incomeOnlyTransactions = [txn Income 5000 ''Salary'']"

section \<open>The dominant category as the specification words it\<close>

text \<open>
  The specification's dominant category: the category with the largest summed amount, a
  tie going to the category met first, and no category at all for an empty breakdown.
\<close>

fun firstLargest :: "Breakdown \<Rightarrow> (string \<times> rat) option" where
  "firstLargest [] = None"
| "firstLargest ((k, v) # kvs) =
     (case firstLargest kvs of
        None \<Rightarrow> Some (k, v)
      | Some (k', v') \<Rightarrow> if v' > v then Some (k', v') else Some (k, v))"

definition spec_dominant_category :: "Breakdown \<Rightarrow> string option" where
  "spec_dominant_category breakdown = map_option fst (firstLargest breakdown)"

text \<open>The distinct elements of a list in the order of their first occurrence.\<close>

fun firstOccurrences :: "string list \<Rightarrow> string list" where
  "firstOccurrences [] = []"
| "firstOccurrences (c # cs) = c # filter (\<lambda>x. x \<noteq> c) (firstOccurrences cs)"

section \<open>The recommendation rules as the specification words them\<close>

text \<open>
  The specification describes the advice as an ordered table of threshold rules, each a
  predicate on the snapshot with its recommendation; the recommendations of the rules that
  hold are returned in table order.
\<close>

definition thresholdRules :: "((FinancialData \<Rightarrow> bool) \<times> (FinancialData \<Rightarrow> Tip)) list" where
  "thresholdRules =
     [(\<lambda>d. savingsRate d < 20, \<lambda>d. boostSavingsTip),
      (\<lambda>d. biggestExpense d > totalExpenses d * 0.4, biggestExpenseTip),
      (\<lambda>d. balance d < 0, \<lambda>d. overspendingTip)]"

definition matchingTips :: "FinancialData \<Rightarrow> Tip list" where
  "matchingTips d = map (\<lambda>(p, r). r d) (filter (\<lambda>(p, r). p d) thresholdRules)"

text \<open>The specification's reading with the overspending recommendation moved to the
  front whenever the balance is negative.\<close>

definition spec_generateRecommendations :: "FinancialData \<Rightarrow> Tip list" where
  "spec_generateRecommendations d =
     (let matched = (if matchingTips d = [] then [doingGreatTip] else matchingTips d)
      in if balance d < 0 then overspendingTip # removeAll overspendingTip matched
         else matched)"

section \<open>Basic facts about the snapshot\<close>

lemma foldl_plus: "foldl (\<lambda>s x. s + f x) a xs = a + sum_list (map f xs)" for a :: rat
  by (induction xs arbitrary: a) (simp_all add: add.assoc)

lemma sumAmounts_sum_list: "sumAmounts ts = sum_list (map amount ts)"
  by (simp add: sumAmounts_def foldl_plus)

lemma snapshot_totalIncome:
  "totalIncome (financialSnapshot txs) =
     sum_list (map amount (filter (\<lambda>t. type_txn t = Income) txs))"
  by (simp add: financialSnapshot_def Let_def sumAmounts_sum_list)

lemma snapshot_totalExpenses:
  "totalExpenses (financialSnapshot txs) =
     sum_list (map amount (filter (\<lambda>t. type_txn t = Expense) txs))"
  by (simp add: financialSnapshot_def Let_def sumAmounts_sum_list)

lemma snapshot_balance:
  "balance (financialSnapshot txs) =
     totalIncome (financialSnapshot txs) - totalExpenses (financialSnapshot txs)"
  by (simp add: financialSnapshot_def Let_def)

lemma snapshot_savingsRate:
  "savingsRate (financialSnapshot txs) =
     (if totalIncome (financialSnapshot txs) > 0
      then balance (financialSnapshot txs) / totalIncome (financialSnapshot txs) * 100
      else 0)"
  by (simp add: financialSnapshot_def Let_def)

lemma snapshot_expenseBreakdown:
  "expenseBreakdown (financialSnapshot txs) =
     fillBreakdown (filter (\<lambda>t. type_txn t = Expense) txs)"
  by (simp add: financialSnapshot_def Let_def)

lemma snapshot_topExpenseCategory:
  "topExpenseCategory (financialSnapshot txs) =
     topCategory (expenseBreakdown (financialSnapshot txs))"
  by (simp add: financialSnapshot_def Let_def)

lemma snapshot_biggestExpense:
  "biggestExpense (financialSnapshot txs) =
     orZero (lookup (expenseBreakdown (financialSnapshot txs))
                    (topExpenseCategory (financialSnapshot txs)))"
  by (simp add: financialSnapshot_def Let_def)

lemma snapshot_monthlyTrend:
  "monthlyTrend (financialSnapshot txs) =
     (if balance (financialSnapshot txs) > 0 then Increasing else Decreasing)"
  by (simp add: financialSnapshot_def Let_def)

lemma loadFinancialData_Rows:
  "txs \<noteq> [] \<Longrightarrow> loadFinancialData (Rows txs) st = Some (financialSnapshot txs)"
  by (simp add: loadFinancialData_def)

lemma scenario_totalIncome: "totalIncome (financialSnapshot scenarioTransactions) = 5000"
  by (simp add: snapshot_totalIncome scenarioTransactions_def txn_def)

lemma scenario_totalExpenses: "totalExpenses (financialSnapshot scenarioTransactions) = 2000"
  by (simp add: snapshot_totalExpenses scenarioTransactions_def txn_def)

lemma scenario_balance: "balance (financialSnapshot scenarioTransactions) = 3000"
  by (simp add: snapshot_balance scenario_totalIncome scenario_totalExpenses)

lemma scenario_savingsRate: "savingsRate (financialSnapshot scenarioTransactions) = 60"
  by (simp add: snapshot_savingsRate scenario_balance scenario_totalIncome)

section \<open>Savings rate\<close>

text \<open>
  Claim C1 as written: the savings rate is the fraction \<open>balance / total_income\<close>, 0.6 in the
  scenario. The code multiplies the fraction by 100: in the scenario the stored rate is 60,
  while the fraction is 0.6.
\<close>

theorem savingsRate_scenario_not_fraction:
  "savingsRate (financialSnapshot scenarioTransactions) = 60 \<and>
   balance (financialSnapshot scenarioTransactions)
     / totalIncome (financialSnapshot scenarioTransactions) = 0.6 \<and>
   savingsRate (financialSnapshot scenarioTransactions) \<noteq> 0.6"
  by (simp add: scenario_savingsRate scenario_balance scenario_totalIncome)

text \<open>
  Claim C1, amended: for every transaction list the savings rate of the snapshot is the
  percentage \<open>balance / total_income * 100\<close> when the total income is positive and 0
  otherwise, in particular 0 when the total income is 0; in the scenario it is 60.
\<close>

theorem savingsRate_is_percentage:
  "savingsRate (financialSnapshot txs) =
     (if totalIncome (financialSnapshot txs) > 0
      then balance (financialSnapshot txs) / totalIncome (financialSnapshot txs) * 100
      else 0)
   \<and> (totalIncome (financialSnapshot txs) = 0 \<longrightarrow> savingsRate (financialSnapshot txs) = 0)
   \<and> savingsRate (financialSnapshot scenarioTransactions) = 60"
proof (intro conjI)
  show "savingsRate (financialSnapshot txs) =
     (if totalIncome (financialSnapshot txs) > 0
      then balance (financialSnapshot txs) / totalIncome (financialSnapshot txs) * 100
      else 0)"
    by (rule snapshot_savingsRate)
  show "totalIncome (financialSnapshot txs) = 0 \<longrightarrow> savingsRate (financialSnapshot txs) = 0"
    by (simp add: snapshot_savingsRate)
  show "savingsRate (financialSnapshot scenarioTransactions) = 60"
    by (rule scenario_savingsRate)
qed

theorem savingsRate_is_percentage_witness:
  "totalIncome (financialSnapshot [txn Expense 100 ''Shopping'']) = 0 \<and>
   savingsRate (financialSnapshot [txn Expense 100 ''Shopping'']) = 0"
proof -
  have z: "totalIncome (financialSnapshot [txn Expense 100 ''Shopping'']) = 0"
    by (simp add: snapshot_totalIncome txn_def)
  show ?thesis
    using z savingsRate_is_percentage [of "[txn Expense 100 ''Shopping'']"] by simp
qed

section \<open>Monthly trend\<close>

lemma overspent_fields:
  "savingsRate (financialSnapshot overspentTransactions) = -50"
  "balance (financialSnapshot overspentTransactions) = -500"
  "totalExpenses (financialSnapshot overspentTransactions) = 1500"
  "biggestExpense (financialSnapshot overspentTransactions) = 1500"
  "topExpenseCategory (financialSnapshot overspentTransactions) = ''Housing''"
  by (simp_all add: financialSnapshot_def overspentTransactions_def txn_def Let_def
        sumAmounts_def fillBreakdown_def addExpense_def assign_def topCategory_def
        pickLarger_def keys_def lookup_def orZero_def jsGreater_def)

lemma dashboard_fields:
  "totalIncome_memo (dashboardTotals txs ds) =
     sum_list (map amount (filter (\<lambda>t. type_txn t = Income) txs))"
  "totalExpenses_memo (dashboardTotals txs ds) =
     sum_list (map amount (filter (\<lambda>t. type_txn t = Expense) txs))"
  "balance_memo (dashboardTotals txs ds) =
     totalIncome_memo (dashboardTotals txs ds) - totalExpenses_memo (dashboardTotals txs ds)"
  "totalDebt (dashboardTotals txs ds) = sum_list (map amount_debt ds)"
  "monthlyDebtPayment (dashboardTotals txs ds) = sum_list (map minimumPayment ds)"
  "availableForDebt (dashboardTotals txs ds) = balance_memo (dashboardTotals txs ds)"
  by (simp_all add: dashboardTotals_def Let_def foldl_plus)

lemma sum_list_nonneg_amount:
  "(\<forall>t\<in>set ts. 0 \<le> amount t) \<Longrightarrow> 0 \<le> sum_list (map amount ts)"
  by (induction ts) simp_all

lemma snapshot_totals_reduce:
  "totalIncome (financialSnapshot txs) = sumAmounts (filter (\<lambda>t. type_txn t = Income) txs)"
  "totalExpenses (financialSnapshot txs) = sumAmounts (filter (\<lambda>t. type_txn t = Expense) txs)"
  by (simp_all add: financialSnapshot_def Let_def)

text \<open>
  Claim C10: for every non-empty transaction list \<^verbatim>\<open>loadFinancialData\<close> stores a
  snapshot whose total income and total expenses are the reductions over the income and
  the expense rows, whose balance is their difference, and whose monthly trend depends on
  the sign of that balance alone: increasing when the balance is positive, decreasing
  otherwise, and never stable.
\<close>

theorem monthlyTrend_sign_of_balance:
  assumes "txs \<noteq> []"
  shows "\<exists>d. loadFinancialData (Rows txs) st = Some d
           \<and> totalIncome d = sumAmounts (filter (\<lambda>t. type_txn t = Income) txs)
           \<and> totalExpenses d = sumAmounts (filter (\<lambda>t. type_txn t = Expense) txs)
           \<and> balance d = totalIncome d - totalExpenses d
           \<and> monthlyTrend d = (if balance d > 0 then Increasing else Decreasing)
           \<and> monthlyTrend d \<noteq> Stable"
proof (intro exI conjI)
  show "loadFinancialData (Rows txs) st = Some (financialSnapshot txs)"
    using assms by (rule loadFinancialData_Rows)
  show "totalIncome (financialSnapshot txs)
          = sumAmounts (filter (\<lambda>t. type_txn t = Income) txs)"
    by (rule snapshot_totals_reduce(1))
  show "totalExpenses (financialSnapshot txs)
          = sumAmounts (filter (\<lambda>t. type_txn t = Expense) txs)"
    by (rule snapshot_totals_reduce(2))
  show "balance (financialSnapshot txs)
          = totalIncome (financialSnapshot txs) - totalExpenses (financialSnapshot txs)"
    by (rule snapshot_balance)
  show "monthlyTrend (financialSnapshot txs)
          = (if balance (financialSnapshot txs) > 0 then Increasing else Decreasing)"
    by (rule snapshot_monthlyTrend)
  show "monthlyTrend (financialSnapshot txs) \<noteq> Stable"
    by (simp add: snapshot_monthlyTrend)
qed

theorem monthlyTrend_sign_of_balance_witness:
  "(\<exists>d. loadFinancialData (Rows scenarioTransactions) None = Some d
         \<and> totalIncome d = 5000 \<and> totalExpenses d = 2000 \<and> balance d = 3000
         \<and> monthlyTrend d = Increasing)
   \<and> (\<exists>d. loadFinancialData (Rows overspentTransactions) None = Some d
         \<and> totalIncome d = 1000 \<and> totalExpenses d = 1500 \<and> balance d = - 500
         \<and> monthlyTrend d = Decreasing)"
proof -
  have ne1: "scenarioTransactions \<noteq> []"
    by (simp add: scenarioTransactions_def)
  have ne2: "overspentTransactions \<noteq> []"
    by (simp add: overspentTransactions_def)
  have s1: "sumAmounts (filter (\<lambda>t. type_txn t = Income) scenarioTransactions) = 5000"
           "sumAmounts (filter (\<lambda>t. type_txn t = Expense) scenarioTransactions) = 2000"
    by (simp_all add: sumAmounts_def scenarioTransactions_def txn_def)
  have s2: "sumAmounts (filter (\<lambda>t. type_txn t = Income) overspentTransactions) = 1000"
           "sumAmounts (filter (\<lambda>t. type_txn t = Expense) overspentTransactions) = 1500"
    by (simp_all add: sumAmounts_def overspentTransactions_def txn_def)
  from monthlyTrend_sign_of_balance [OF ne1, of None]
  have w1: "\<exists>d. loadFinancialData (Rows scenarioTransactions) None = Some d
         \<and> totalIncome d = 5000 \<and> totalExpenses d = 2000 \<and> balance d = 3000
         \<and> monthlyTrend d = Increasing"
    unfolding s1 by auto
  from monthlyTrend_sign_of_balance [OF ne2, of None]
  have w2: "\<exists>d. loadFinancialData (Rows overspentTransactions) None = Some d
         \<and> totalIncome d = 1000 \<and> totalExpenses d = 1500 \<and> balance d = - 500
         \<and> monthlyTrend d = Decreasing"
    unfolding s2 by auto
  from w1 w2 show ?thesis by (rule conjI)
qed

section \<open>The empty transaction list\<close>

text \<open>
  Claim C5 as written: on the empty transaction list a snapshot with all totals 0 is
  produced. \<^verbatim>\<open>loadFinancialData\<close> computes a snapshot only under
  \<^verbatim>\<open>transactions.length > 0\<close>: on the empty list, starting from the initial state, no
  snapshot exists afterwards.
\<close>

theorem loadFinancialData_empty_no_snapshot:
  "loadFinancialData (Rows []) None = None"
  by (simp add: loadFinancialData_def)

text \<open>
  Claim C5, amended: the aggregation formulas evaluated on the empty list give total income
  0, total expenses 0, balance 0, savings rate 0 and an empty expense breakdown, and the
  dashboard totals of the empty list are 0; \<^verbatim>\<open>loadFinancialData\<close> however stores no
  snapshot for the empty list and leaves the financial data it held unchanged.
\<close>

theorem empty_list_zero_totals_no_update:
  "loadFinancialData (Rows []) st = st
   \<and> totalIncome (financialSnapshot []) = 0
   \<and> totalExpenses (financialSnapshot []) = 0
   \<and> balance (financialSnapshot []) = 0
   \<and> savingsRate (financialSnapshot []) = 0
   \<and> expenseBreakdown (financialSnapshot []) = []
   \<and> totalIncome_memo (dashboardTotals [] ds) = 0
   \<and> totalExpenses_memo (dashboardTotals [] ds) = 0
   \<and> balance_memo (dashboardTotals [] ds) = 0"
  by (simp add: loadFinancialData_def financialSnapshot_def sumAmounts_def
        fillBreakdown_def dashboardTotals_def Let_def)

section \<open>Totals and balance\<close>

text \<open>
  Claim C7 as written: for every transaction list the totals are non-negative. Amounts are
  not validated anywhere, and a single income entry of -5 gives a negative total income.
\<close>

theorem totalIncome_negative_amount:
  "totalIncome (financialSnapshot [txn Income (-5) ''Salary'']) < 0"
  by (simp add: snapshot_totalIncome txn_def)

text \<open>
  Claim C7, amended: for every transaction list the balance equals total income minus
  total expenses, in the snapshot and in the dashboard totals alike; and for every
  transaction list whose amounts are all non-negative, total income and total expenses
  are non-negative.
\<close>

theorem totals_nonneg_balance_exact:
  "balance (financialSnapshot txs) =
     totalIncome (financialSnapshot txs) - totalExpenses (financialSnapshot txs)
   \<and> balance_memo (dashboardTotals txs ds) =
       totalIncome_memo (dashboardTotals txs ds) - totalExpenses_memo (dashboardTotals txs ds)
   \<and> ((\<forall>t\<in>set txs. 0 \<le> amount t) \<longrightarrow>
        0 \<le> totalIncome (financialSnapshot txs)
      \<and> 0 \<le> totalExpenses (financialSnapshot txs)
      \<and> 0 \<le> totalIncome_memo (dashboardTotals txs ds)
      \<and> 0 \<le> totalExpenses_memo (dashboardTotals txs ds))"
proof (intro conjI impI)
  show "balance (financialSnapshot txs) =
     totalIncome (financialSnapshot txs) - totalExpenses (financialSnapshot txs)"
    by (rule snapshot_balance)
  show "balance_memo (dashboardTotals txs ds) =
       totalIncome_memo (dashboardTotals txs ds) - totalExpenses_memo (dashboardTotals txs ds)"
    by (rule dashboard_fields(3))
next
  assume nn: "\<forall>t\<in>set txs. 0 \<le> amount t"
  have part: "0 \<le> sum_list (map amount (filter P txs))" for P
    using nn by (intro sum_list_nonneg_amount) simp
  show "0 \<le> totalIncome (financialSnapshot txs)"
    by (simp add: snapshot_totalIncome part)
  show "0 \<le> totalExpenses (financialSnapshot txs)"
    by (simp add: snapshot_totalExpenses part)
  show "0 \<le> totalIncome_memo (dashboardTotals txs ds)"
    by (simp add: dashboard_fields(1) part)
  show "0 \<le> totalExpenses_memo (dashboardTotals txs ds)"
    by (simp add: dashboard_fields(2) part)
qed

theorem totals_nonneg_balance_exact_witness:
  "list_all (\<lambda>t. 0 \<le> amount t) scenarioTransactions
   \<and> 0 \<le> totalIncome (financialSnapshot scenarioTransactions)
   \<and> 0 \<le> totalExpenses (financialSnapshot scenarioTransactions)
   \<and> balance (financialSnapshot scenarioTransactions) = 5000 - 2000"
proof -
  have nn: "\<forall>t\<in>set scenarioTransactions. 0 \<le> amount t"
    by (simp add: scenarioTransactions_def txn_def)
  show ?thesis
    using nn totals_nonneg_balance_exact [of scenarioTransactions "[]"]
    by (simp add: scenario_totalIncome scenario_totalExpenses list_all_iff)
qed

section \<open>Recommendations\<close>

lemma tips_distinct:
  "doingGreatTip \<noteq> boostSavingsTip"
  "doingGreatTip \<noteq> biggestExpenseTip d"
  "doingGreatTip \<noteq> overspendingTip"
  by (simp_all add: doingGreatTip_def boostSavingsTip_def biggestExpenseTip_def
        overspendingTip_def)

text \<open>
  Claim C9: for every snapshot \<^verbatim>\<open>getPersonalizedTips\<close> returns at least one
  recommendation, and the "well balanced" recommendation is returned exactly when none of
  the three threshold rules matches; it is then the only one.
\<close>

theorem tips_never_empty_fallback:
  "getPersonalizedTips d \<noteq> []
   \<and> (doingGreatTip \<in> set (getPersonalizedTips d) \<longleftrightarrow>
        \<not> savingsRate d < 20 \<and> \<not> biggestExpense d > totalExpenses d * 0.4
        \<and> \<not> balance d < 0)
   \<and> (doingGreatTip \<in> set (getPersonalizedTips d) \<longleftrightarrow>
        getPersonalizedTips d = [doingGreatTip])"
  using tips_distinct(1,3) tips_distinct(2) [of d]
  by (auto simp add: getPersonalizedTips_def Let_def)

text \<open>
  Claim C3 as written: when the balance is negative the overspending recommendation comes
  first. For the overspent month the code returns the three recommendations in the order
  savings, biggest expense, overspending: the overspending one is last.
\<close>

theorem overspending_tip_not_first:
  "balance (financialSnapshot overspentTransactions) < 0
   \<and> map title (getPersonalizedTips (financialSnapshot overspentTransactions)) =
       [''Boost Your Savings'', ''Optimize Your Biggest Expense'', ''Address Overspending'']
   \<and> hd (getPersonalizedTips (financialSnapshot overspentTransactions)) \<noteq> overspendingTip
   \<and> getPersonalizedTips (financialSnapshot overspentTransactions)
        \<noteq> spec_generateRecommendations (financialSnapshot overspentTransactions)"
  by (simp add: getPersonalizedTips_def spec_generateRecommendations_def matchingTips_def
        thresholdRules_def Let_def overspent_fields boostSavingsTip_def biggestExpenseTip_def
        overspendingTip_def)

text \<open>
  Claim C3, amended: for every snapshot \<^verbatim>\<open>getPersonalizedTips\<close> returns the
  recommendations of exactly the threshold rules whose predicates hold, in rule-declaration
  order (savings below 20 percent, biggest expense above 40 percent of the expenses,
  negative balance), with no reordering for a negative balance; when no rule holds it
  returns the single "well balanced" recommendation.
\<close>

theorem tips_in_declaration_order:
  "getPersonalizedTips d = (if matchingTips d = [] then [doingGreatTip] else matchingTips d)
   \<and> matchingTips d =
       (if savingsRate d < 20 then [boostSavingsTip] else [])
     @ (if biggestExpense d > totalExpenses d * 0.4 then [biggestExpenseTip d] else [])
     @ (if balance d < 0 then [overspendingTip] else [])"
  by (simp add: getPersonalizedTips_def matchingTips_def thresholdRules_def Let_def)

section \<open>Debt totals and the debt-free timeline\<close>

lemma salaryOnly_totals:
  "availableForDebt (dashboardTotals salaryOnlyTransactions []) = 100"
  "monthlyDebtPayment (dashboardTotals salaryOnlyTransactions []) = 0"
  "totalDebt (dashboardTotals salaryOnlyTransactions []) = 0"
  by (simp_all add: dashboard_fields salaryOnlyTransactions_def txn_def)

text \<open>
  Claim C4 as written: for every debt list the payoff estimate is the ceiling of total
  debt divided by (available minus monthly minimum) whenever the available amount exceeds
  the monthly minimum. With a salary of 100 and no debt the available amount 100 exceeds
  the monthly minimum 0 and the formula gives 0 months, but the card that holds the
  timeline is not rendered: no estimate is shown.
\<close>

theorem no_debt_no_timeline:
  "availableForDebt (dashboardTotals salaryOnlyTransactions [])
     > monthlyDebtPayment (dashboardTotals salaryOnlyTransactions [])
   \<and> debtFreeTimeline (dashboardTotals salaryOnlyTransactions []) = Months 0
   \<and> debtStrategyCard (dashboardTotals salaryOnlyTransactions []) = None"
  by (simp add: debtStrategyCard_def debtFreeTimeline_def salaryOnly_totals)

text \<open>
  Claim C4, amended: for every transaction list and debt list of whole-number amounts
  (transaction amounts and minimum payments adding up to at most \<open>2^53\<close> in absolute value,
  and so the principals), the total debt is the sum of the principals, the monthly
  minimum the sum of the minimum payments and the amount available for debt the balance.
  When the total debt is positive, the timeline shows the ceiling of total debt divided by
  (available minus monthly minimum) months if the available amount exceeds the monthly
  minimum, and no number of months otherwise; when the total debt is not positive, no
  timeline is shown at all.
\<close>

theorem debt_totals_and_timeline:
  assumes "wholeAmounts (map amount txs @ map minimumPayment ds)"
      and "wholeAmounts (map amount_debt ds)"
  shows "totalDebt (dashboardTotals txs ds) = sum_list (map amount_debt ds)
   \<and> monthlyDebtPayment (dashboardTotals txs ds) = sum_list (map minimumPayment ds)
   \<and> availableForDebt (dashboardTotals txs ds) = balance_memo (dashboardTotals txs ds)
   \<and> debtStrategyCard (dashboardTotals txs ds) =
       (if sum_list (map amount_debt ds) > 0
        then Some (if balance_memo (dashboardTotals txs ds) > sum_list (map minimumPayment ds)
                   then Months \<lceil>sum_list (map amount_debt ds)
                                 / (balance_memo (dashboardTotals txs ds)
                                    - sum_list (map minimumPayment ds))\<rceil>
                   else FocusOnIncomeFirst)
        else None)"
  by (simp add: debtStrategyCard_def debtFreeTimeline_def dashboard_fields)

theorem debt_totals_and_timeline_witness:
  "balance_memo (dashboardTotals scenarioTransactions [debt 6000 300, debt 4100 200]) = 3000
   \<and> monthlyDebtPayment (dashboardTotals scenarioTransactions [debt 6000 300, debt 4100 200])
       = 500
   \<and> debtStrategyCard (dashboardTotals scenarioTransactions [debt 6000 300, debt 4100 200])
       = Some (Months 5)
   \<and> debtStrategyCard (dashboardTotals [] [debt 1000 50]) = Some FocusOnIncomeFirst"
proof -
  have c: "\<lceil>(101 / 25 :: rat)\<rceil> = 5"
    by (simp add: ceiling_eq_iff)
  have h1: "wholeAmounts (map amount scenarioTransactions
              @ map minimumPayment [debt 6000 300, debt 4100 200])"
    by (simp add: wholeAmounts_def scenarioTransactions_def txn_def debt_def)
  have h2: "wholeAmounts (map amount_debt [debt 6000 300, debt 4100 200])"
    by (simp add: wholeAmounts_def debt_def)
  have h3: "wholeAmounts (map amount [] @ map minimumPayment [debt 1000 50])"
    by (simp add: wholeAmounts_def debt_def)
  have h4: "wholeAmounts (map amount_debt [debt 1000 50])"
    by (simp add: wholeAmounts_def debt_def)
  show ?thesis
    using debt_totals_and_timeline [OF h1 h2] debt_totals_and_timeline [OF h3 h4]
    by (simp add: dashboard_fields scenarioTransactions_def txn_def debt_def c)
qed

section \<open>The expense breakdown\<close>

lemma orZero_simps [simp]: "orZero None = 0" "orZero (Some v) = v"
  by (simp_all add: orZero_def)

lemma lookup_simps [simp]:
  "lookup [] k = None"
  "lookup ((k', v) # kvs) k = (if k' = k then Some v else lookup kvs k)"
  by (auto simp add: lookup_def)

lemma keys_simps [simp]: "keys [] = []" "keys ((k, v) # kvs) = k # keys kvs"
  by (simp_all add: keys_def)

lemma lookup_store: "lookup (store eb k v) k' = (if k' = k then Some v else lookup eb k')"
  by (induction eb k v rule: store.induct) auto

lemma keys_store:
  "keys (store eb k v) = (if k \<in> set (keys eb) then keys eb else keys eb @ [k])"
  by (induction eb k v rule: store.induct) auto

lemma lookup_None_iff: "lookup eb k = None \<longleftrightarrow> k \<notin> set (keys eb)"
  by (induction eb) (auto split: if_splits)


lemma ordinaryLabel_not_proto: "ordinaryLabel c \<Longrightarrow> c \<noteq> ''__proto__''"
  by (auto simp add: ordinaryLabel_def objectPrototypeNames_def)

lemma ordinaryCategories_not_proto:
  assumes "ordinaryCategories txs"
  shows "''__proto__'' \<notin> category ` set (filter (\<lambda>t. type_txn t = Expense) txs)"
proof
  assume "''__proto__'' \<in> category ` set (filter (\<lambda>t. type_txn t = Expense) txs)"
  then obtain t where t: "t \<in> set (filter (\<lambda>t. type_txn t = Expense) txs)"
      and c: "category t = ''__proto__''"
    by auto
  from assms t have "ordinaryLabel (category t)"
    unfolding ordinaryCategories_def list_all_iff by blast
  then show False using c ordinaryLabel_not_proto by blast
qed

lemma addExpense_proto: "category e = ''__proto__'' \<Longrightarrow> addExpense eb e = eb"
  by (simp add: addExpense_def assign_def)

lemma lookup_addExpense:
  "category e \<noteq> ''__proto__'' \<Longrightarrow>
   lookup (addExpense eb e) c =
     (if c = category e then Some (orZero (lookup eb c) + amount e) else lookup eb c)"
  by (simp add: addExpense_def assign_def lookup_store)

lemma keys_addExpense:
  "category e \<noteq> ''__proto__'' \<Longrightarrow>
   keys (addExpense eb e) =
     (if category e \<in> set (keys eb) then keys eb else keys eb @ [category e])"
  by (simp add: addExpense_def assign_def keys_store)



lemma distinct_keys_addExpense:
  "distinct (keys eb) \<Longrightarrow> distinct (keys (addExpense eb e))"
  by (cases "category e = ''__proto__''") (simp_all add: addExpense_proto keys_addExpense)

lemma keys_foldl_distinct:
  "distinct (keys eb) \<Longrightarrow> distinct (keys (foldl addExpense eb es))"
  by (induction es arbitrary: eb) (simp_all add: distinct_keys_addExpense)

lemma filter_category_empty:
  "c \<notin> category ` set es \<Longrightarrow> filter (\<lambda>e. category e = c) es = []"
  by (auto simp add: filter_empty_conv)

lemma lookup_foldl:
  "''__proto__'' \<notin> category ` set es \<Longrightarrow>
   lookup (foldl addExpense eb es) c =
     (if c \<in> category ` set es
      then Some (orZero (lookup eb c)
                 + sum_list (map amount (filter (\<lambda>e. category e = c) es)))
      else lookup eb c)"
proof (induction es arbitrary: eb)
  case Nil
  then show ?case by simp
next
  case (Cons e es)
  from Cons.prems have e: "category e \<noteq> ''__proto__''"
    and es: "''__proto__'' \<notin> category ` set es"
    by auto
  show ?case
    by (auto simp add: Cons.IH [OF es] lookup_addExpense [OF e] add.assoc
          filter_category_empty)
qed

lemma scenario_breakdown:
  "expenseBreakdown (financialSnapshot scenarioTransactions) =
     [(''Food & Dining'', 1200), (''Shopping'', 800)]"
  by (simp add: snapshot_expenseBreakdown fillBreakdown_def scenarioTransactions_def
        txn_def addExpense_def assign_def)

lemma scenario_ordinary: "ordinaryCategories scenarioTransactions"
  by (simp add: ordinaryCategories_def ordinaryLabel_def objectPrototypeNames_def
        digitChar_def scenarioTransactions_def txn_def)

lemma scenario_whole: "wholeAmounts (map amount scenarioTransactions)"
  by (simp add: wholeAmounts_def scenarioTransactions_def txn_def)






section \<open>The top expense category\<close>

lemma jsGreater_Some [simp]: "jsGreater (Some a) (Some b) \<longleftrightarrow> b < a"
  by (simp add: jsGreater_def)

lemma jsGreater_None [simp]: "\<not> jsGreater None y" "\<not> jsGreater x None"
  by (simp_all add: jsGreater_def split: option.splits)

lemma jsGreater_chain:
  "\<not> jsGreater x y \<Longrightarrow> \<not> jsGreater y z \<Longrightarrow> y \<noteq> None \<Longrightarrow> \<not> jsGreater x z"
  by (cases x; cases y; cases z) auto

lemma jsGreater_below:
  "jsGreater y k \<Longrightarrow> \<not> jsGreater y z \<Longrightarrow> \<not> jsGreater k z"
  by (cases y; cases k; cases z) auto

lemma reduce_last_max:
  assumes "\<forall>k\<in>set ks. lookup eb k \<noteq> None"
  shows "(foldl (pickLarger eb) a ks = a \<and> (\<forall>k\<in>set ks. jsGreater (lookup eb a) (lookup eb k)))
       \<or> (\<exists>pre post. ks = pre @ foldl (pickLarger eb) a ks # post
             \<and> \<not> jsGreater (lookup eb a) (lookup eb (foldl (pickLarger eb) a ks))
             \<and> (\<forall>k\<in>set pre. \<not> jsGreater (lookup eb k) (lookup eb (foldl (pickLarger eb) a ks)))
             \<and> (\<forall>k\<in>set post. jsGreater (lookup eb (foldl (pickLarger eb) a ks)) (lookup eb k)))"
  using assms
proof (induction ks rule: rev_induct)
  case Nil
  then show ?case by simp
next
  case (snoc x ks)
  define r where "r = foldl (pickLarger eb) a ks"
  have defined: "\<forall>k\<in>set ks. lookup eb k \<noteq> None" and dx: "lookup eb x \<noteq> None"
    using snoc.prems by simp_all
  have IH: "(r = a \<and> (\<forall>k\<in>set ks. jsGreater (lookup eb a) (lookup eb k)))
       \<or> (\<exists>pre post. ks = pre @ r # post
             \<and> \<not> jsGreater (lookup eb a) (lookup eb r)
             \<and> (\<forall>k\<in>set pre. \<not> jsGreater (lookup eb k) (lookup eb r))
             \<and> (\<forall>k\<in>set post. jsGreater (lookup eb r) (lookup eb k)))"
    unfolding r_def using snoc.IH defined by blast
  have step: "foldl (pickLarger eb) a (ks @ [x]) = pickLarger eb r x"
    by (simp add: r_def)
  show ?case
  proof (cases "jsGreater (lookup eb r) (lookup eb x)")
    case True
    then have res: "foldl (pickLarger eb) a (ks @ [x]) = r"
      by (simp only: step pickLarger_def if_True)
    from IH show ?thesis
    proof
      assume "r = a \<and> (\<forall>k\<in>set ks. jsGreater (lookup eb a) (lookup eb k))"
      then have "r = a" and "\<forall>k\<in>set (ks @ [x]). jsGreater (lookup eb a) (lookup eb k)"
        using True by simp_all
      then show ?thesis unfolding res by (intro disjI1 conjI)
    next
      assume "\<exists>pre post. ks = pre @ r # post
             \<and> \<not> jsGreater (lookup eb a) (lookup eb r)
             \<and> (\<forall>k\<in>set pre. \<not> jsGreater (lookup eb k) (lookup eb r))
             \<and> (\<forall>k\<in>set post. jsGreater (lookup eb r) (lookup eb k))"
      then obtain pre post where pp: "ks = pre @ r # post"
        "\<not> jsGreater (lookup eb a) (lookup eb r)"
        "\<forall>k\<in>set pre. \<not> jsGreater (lookup eb k) (lookup eb r)"
        "\<forall>k\<in>set post. jsGreater (lookup eb r) (lookup eb k)"
        by blast
      have split: "ks @ [x] = pre @ r # (post @ [x])" using pp(1) by simp
      have after: "\<forall>k\<in>set (post @ [x]). jsGreater (lookup eb r) (lookup eb k)"
        using pp(4) True by simp
      show ?thesis unfolding res
        by (rule disjI2, rule exI [of _ pre], rule exI [of _ "post @ [x]"])
           (intro conjI split pp(2) pp(3) after)
    qed
  next
    case False
    then have res: "foldl (pickLarger eb) a (ks @ [x]) = x"
      by (simp only: step pickLarger_def if_False)
    have below: "\<forall>k\<in>set ks. \<not> jsGreater (lookup eb k) (lookup eb x)"
      using IH
    proof
      assume h: "r = a \<and> (\<forall>k\<in>set ks. jsGreater (lookup eb a) (lookup eb k))"
      show ?thesis
      proof
        fix k assume "k \<in> set ks"
        then have "jsGreater (lookup eb r) (lookup eb k)" using h by simp
        then show "\<not> jsGreater (lookup eb k) (lookup eb x)"
          using False by (rule jsGreater_below)
      qed
    next
      assume "\<exists>pre post. ks = pre @ r # post
             \<and> \<not> jsGreater (lookup eb a) (lookup eb r)
             \<and> (\<forall>k\<in>set pre. \<not> jsGreater (lookup eb k) (lookup eb r))
             \<and> (\<forall>k\<in>set post. jsGreater (lookup eb r) (lookup eb k))"
      then obtain pre post where pp: "ks = pre @ r # post"
        "\<not> jsGreater (lookup eb a) (lookup eb r)"
        "\<forall>k\<in>set pre. \<not> jsGreater (lookup eb k) (lookup eb r)"
        "\<forall>k\<in>set post. jsGreater (lookup eb r) (lookup eb k)"
        by blast
      have rn: "lookup eb r \<noteq> None" using defined pp(1) by simp
      show ?thesis
      proof
        fix k assume "k \<in> set ks"
        then consider "k \<in> set pre" | "k = r" | "k \<in> set post" using pp(1) by auto
        then show "\<not> jsGreater (lookup eb k) (lookup eb x)"
        proof cases
          case 1
          then show ?thesis using pp(3) False rn jsGreater_chain by blast
        next
          case 2
          then show ?thesis using False by simp
        next
          case 3
          then show ?thesis using pp(4) False jsGreater_below by blast
        qed
      qed
    qed
    have start: "\<not> jsGreater (lookup eb a) (lookup eb x)"
      using IH
    proof
      assume "r = a \<and> (\<forall>k\<in>set ks. jsGreater (lookup eb a) (lookup eb k))"
      then show ?thesis using False by simp
    next
      assume "\<exists>pre post. ks = pre @ r # post
             \<and> \<not> jsGreater (lookup eb a) (lookup eb r)
             \<and> (\<forall>k\<in>set pre. \<not> jsGreater (lookup eb k) (lookup eb r))
             \<and> (\<forall>k\<in>set post. jsGreater (lookup eb r) (lookup eb k))"
      then obtain pre post where pp: "ks = pre @ r # post"
        "\<not> jsGreater (lookup eb a) (lookup eb r)" by blast
      have rn: "lookup eb r \<noteq> None" using defined pp(1) by simp
      show ?thesis using pp(2) False rn by (rule jsGreater_chain)
    qed
    have split: "ks @ [x] = ks @ x # []" by simp
    have after: "\<forall>k\<in>set []. jsGreater (lookup eb x) (lookup eb k)" by simp
    show ?thesis unfolding res
      by (rule disjI2, rule exI [of _ ks], rule exI [of _ "[]"])
         (intro conjI split start below after)
  qed
qed

lemma lookup_distinct:
  "distinct (keys eb) \<Longrightarrow> lookup eb k = Some w \<longleftrightarrow> (k, w) \<in> set eb"
  by (simp add: lookup_def keys_def)

lemma topCategory_split:
  assumes d: "distinct (keys eb)" and ne: "eb \<noteq> []"
  shows "\<exists>pre v post. eb = pre @ (topCategory eb, v) # post
           \<and> (\<forall>(k, w)\<in>set pre. w \<le> v) \<and> (\<forall>(k, w)\<in>set post. w < v)"
proof -
  define r where "r = topCategory eb"
  have r: "r = foldl (pickLarger eb) ''Other'' (keys eb)"
    by (simp add: r_def topCategory_def)
  have defined: "\<forall>k\<in>set (keys eb). lookup eb k \<noteq> None"
    by (simp add: lookup_None_iff)
  have not_first: "\<not> (\<forall>k\<in>set (keys eb). jsGreater (lookup eb ''Other'') (lookup eb k))"
  proof
    assume all: "\<forall>k\<in>set (keys eb). jsGreater (lookup eb ''Other'') (lookup eb k)"
    define k where "k = hd (keys eb)"
    have k: "k \<in> set (keys eb)" using ne by (cases eb) (auto simp add: k_def)
    have "jsGreater (lookup eb ''Other'') (lookup eb k)" using all k by blast
    then have "lookup eb ''Other'' \<noteq> None" by (cases "lookup eb ''Other''") auto
    then have "''Other'' \<in> set (keys eb)" by (simp add: lookup_None_iff)
    then have "jsGreater (lookup eb ''Other'') (lookup eb ''Other'')" using all by blast
    then show False by (cases "lookup eb ''Other''") auto
  qed
  from reduce_last_max [OF defined, of "''Other''"] not_first
  obtain pre post where pp: "keys eb = pre @ r # post"
      "\<forall>k\<in>set pre. \<not> jsGreater (lookup eb k) (lookup eb r)"
      "\<forall>k\<in>set post. jsGreater (lookup eb r) (lookup eb k)"
    unfolding r by blast
  from pp(1) obtain pre' e post' where eb: "eb = pre' @ e # post'"
      and m: "map fst pre' = pre" "fst e = r" "map fst post' = post"
    unfolding keys_def by (auto simp add: map_eq_append_conv map_eq_Cons_conv)
  obtain v where e: "e = (r, v)" using m(2) by (cases e) auto
  have lr: "lookup eb r = Some v"
    using d eb e by (simp add: lookup_distinct)
  have before: "\<forall>(k, w)\<in>set pre'. w \<le> v"
  proof (clarify)
    fix k w assume kw: "(k, w) \<in> set pre'"
    then have "k \<in> set pre" using m(1) by force
    moreover have "lookup eb k = Some w" using d eb kw by (simp add: lookup_distinct)
    ultimately show "w \<le> v" using pp(2) lr by fastforce
  qed
  have after: "\<forall>(k, w)\<in>set post'. w < v"
  proof (clarify)
    fix k w assume kw: "(k, w) \<in> set post'"
    then have "k \<in> set post" using m(3) by force
    moreover have "lookup eb k = Some w" using d eb kw by (simp add: lookup_distinct)
    ultimately show "w < v" using pp(3) lr by fastforce
  qed
  show ?thesis using eb e before after unfolding r_def by blast
qed

lemma topCategory_empty: "topCategory [] = ''Other''"
  by (simp add: topCategory_def)

lemma keys_foldl_order:
  "''__proto__'' \<notin> category ` set es \<Longrightarrow>
   keys (foldl addExpense eb es) =
     keys eb @ filter (\<lambda>c. c \<notin> set (keys eb)) (firstOccurrences (map category es))"
proof (induction es arbitrary: eb)
  case Nil
  then show ?case by simp
next
  case (Cons e es)
  from Cons.prems have e: "category e \<noteq> ''__proto__''"
    and es: "''__proto__'' \<notin> category ` set es"
    by auto
  have "filter (\<lambda>c. c \<notin> set (keys eb) \<and> c \<noteq> category e) xs
        = filter (\<lambda>c. c \<noteq> category e \<and> c \<notin> set (keys eb)) xs" for xs
    by (rule filter_cong) auto
  moreover have "category e \<in> set (keys eb) \<Longrightarrow>
        filter (\<lambda>c. c \<noteq> category e \<and> c \<notin> set (keys eb)) xs
        = filter (\<lambda>c. c \<notin> set (keys eb)) xs" for xs
    by (rule filter_cong) auto
  ultimately show ?case
    by (simp add: Cons.IH [OF es] keys_addExpense [OF e])
qed

lemma fillBreakdown_keys:
  "''__proto__'' \<notin> category ` set es \<Longrightarrow>
   keys (fillBreakdown es) = firstOccurrences (map category es)"
  by (simp add: fillBreakdown_def keys_foldl_order)

lemma fillBreakdown_distinct: "distinct (keys (fillBreakdown es))"
  by (simp add: fillBreakdown_def keys_foldl_distinct)

lemma tied_fields:
  "expenseBreakdown (financialSnapshot tiedTransactions)
     = [(''Food & Dining'', 100), (''Shopping'', 100)]"
  "topExpenseCategory (financialSnapshot tiedTransactions) = ''Shopping''"
  "biggestExpense (financialSnapshot tiedTransactions) = 100"
  by (simp_all add: financialSnapshot_def tiedTransactions_def txn_def Let_def
        fillBreakdown_def addExpense_def assign_def topCategory_def pickLarger_def)

lemma tied_rev_fields:
  "expenseBreakdown (financialSnapshot (rev tiedTransactions))
     = [(''Shopping'', 100), (''Food & Dining'', 100)]"
  "topExpenseCategory (financialSnapshot (rev tiedTransactions)) = ''Food & Dining''"
  by (simp_all add: financialSnapshot_def tiedTransactions_def txn_def Let_def
        fillBreakdown_def addExpense_def assign_def topCategory_def pickLarger_def)

lemma tied_ordinary: "ordinaryCategories tiedTransactions"
  by (simp add: ordinaryCategories_def ordinaryLabel_def objectPrototypeNames_def
        digitChar_def tiedTransactions_def txn_def)

lemma incomeOnly_fields:
  "expenseBreakdown (financialSnapshot incomeOnlyTransactions) = []"
  "topExpenseCategory (financialSnapshot incomeOnlyTransactions) = ''Other''"
  by (simp_all add: financialSnapshot_def incomeOnlyTransactions_def txn_def Let_def
        fillBreakdown_def addExpense_def assign_def topCategory_def pickLarger_def)

text \<open>
  Claim C2 as written: the top category is the category with the largest summed amount,
  a tie going to the category met first, and it is undefined for an empty breakdown. With
  100 spent on food and then 100 on shopping, the category met first is food, but the code
  answers shopping; with no expenses at all the code answers the label \<^verbatim>\<open>'Other'\<close>.
\<close>

theorem topExpenseCategory_tie_goes_to_last:
  "spec_dominant_category (expenseBreakdown (financialSnapshot tiedTransactions))
     = Some ''Food & Dining''
   \<and> topExpenseCategory (financialSnapshot tiedTransactions) = ''Shopping''
   \<and> Some (topExpenseCategory (financialSnapshot tiedTransactions))
        \<noteq> spec_dominant_category (expenseBreakdown (financialSnapshot tiedTransactions))
   \<and> spec_dominant_category (expenseBreakdown (financialSnapshot incomeOnlyTransactions))
        = None
   \<and> topExpenseCategory (financialSnapshot incomeOnlyTransactions) = ''Other''"
  by (simp add: tied_fields incomeOnly_fields spec_dominant_category_def)

text \<open>
  Claim C2, amended: for every transaction list whose expense categories are ordinary
  labels, the keys of the expense breakdown are the expense categories in the order of
  their first occurrence in the input. When the breakdown is not empty, the top category
  is a category with the largest summed amount, a tie going to the category that is last
  in key order: every entry before it has an amount at most as large, every entry after
  it a strictly smaller one, and the biggest expense is its amount. When the breakdown is
  empty the top category is the label \<^verbatim>\<open>'Other'\<close> and the biggest expense is 0.
\<close>

theorem topExpenseCategory_last_largest:
  assumes labels: "ordinaryCategories txs"
  shows "keys (expenseBreakdown (financialSnapshot txs))
     = firstOccurrences (map category (filter (\<lambda>t. type_txn t = Expense) txs))
   \<and> (expenseBreakdown (financialSnapshot txs) = [] \<longrightarrow>
        topExpenseCategory (financialSnapshot txs) = ''Other''
        \<and> biggestExpense (financialSnapshot txs) = 0)
   \<and> (expenseBreakdown (financialSnapshot txs) \<noteq> [] \<longrightarrow>
        (\<exists>pre post.
            expenseBreakdown (financialSnapshot txs)
              = pre @ (topExpenseCategory (financialSnapshot txs),
                       biggestExpense (financialSnapshot txs)) # post
          \<and> (\<forall>(k, w)\<in>set pre. w \<le> biggestExpense (financialSnapshot txs))
          \<and> (\<forall>(k, w)\<in>set post. w < biggestExpense (financialSnapshot txs))))"
proof (intro conjI impI)
  show "keys (expenseBreakdown (financialSnapshot txs))
     = firstOccurrences (map category (filter (\<lambda>t. type_txn t = Expense) txs))"
    by (simp add: snapshot_expenseBreakdown
          fillBreakdown_keys [OF ordinaryCategories_not_proto [OF labels]])
next
  assume e: "expenseBreakdown (financialSnapshot txs) = []"
  show "topExpenseCategory (financialSnapshot txs) = ''Other''"
    by (simp add: snapshot_topExpenseCategory e topCategory_empty)
  show "biggestExpense (financialSnapshot txs) = 0"
    by (simp add: snapshot_biggestExpense e)
next
  assume ne: "expenseBreakdown (financialSnapshot txs) \<noteq> []"
  define eb where "eb = expenseBreakdown (financialSnapshot txs)"
  have d: "distinct (keys eb)"
    by (simp add: eb_def snapshot_expenseBreakdown fillBreakdown_distinct)
  from topCategory_split [OF d] ne
  obtain pre v post where s: "eb = pre @ (topCategory eb, v) # post"
      "\<forall>(k, w)\<in>set pre. w \<le> v" "\<forall>(k, w)\<in>set post. w < v"
    unfolding eb_def by blast
  have "(topCategory eb, v) \<in> set eb"
    by (subst s(1)) simp
  then have "lookup eb (topCategory eb) = Some v"
    using d by (simp add: lookup_distinct)
  then have big: "biggestExpense (financialSnapshot txs) = v"
    by (simp add: snapshot_biggestExpense snapshot_topExpenseCategory eb_def)
  have top: "topExpenseCategory (financialSnapshot txs) = topCategory eb"
    by (simp add: snapshot_topExpenseCategory eb_def)
  show "\<exists>pre post.
            expenseBreakdown (financialSnapshot txs)
              = pre @ (topExpenseCategory (financialSnapshot txs),
                       biggestExpense (financialSnapshot txs)) # post
          \<and> (\<forall>(k, w)\<in>set pre. w \<le> biggestExpense (financialSnapshot txs))
          \<and> (\<forall>(k, w)\<in>set post. w < biggestExpense (financialSnapshot txs))"
    unfolding big top using s unfolding eb_def by blast
qed

theorem topExpenseCategory_last_largest_witness:
  "keys (expenseBreakdown (financialSnapshot tiedTransactions))
     = [''Food & Dining'', ''Shopping'']
   \<and> expenseBreakdown (financialSnapshot tiedTransactions)
     = [(''Food & Dining'', 100)] @ (''Shopping'', 100) # []
   \<and> topExpenseCategory (financialSnapshot tiedTransactions) = ''Shopping''
   \<and> biggestExpense (financialSnapshot tiedTransactions) = 100"
  using topExpenseCategory_last_largest [OF tied_ordinary]
  by (simp add: tied_fields)

section \<open>Reordering the input\<close>

lemma sum_list_filter_mset:
  assumes "mset xs = mset ys"
  shows "sum_list (map f (filter P xs)) = (sum_list (map f (filter P ys)) :: rat)"
proof -
  have "mset (map f (filter P xs)) = mset (map f (filter P ys))"
    using assms by simp
  then have "sum_mset (mset (map f (filter P xs))) = sum_mset (mset (map f (filter P ys)))"
    by (rule arg_cong)
  then show ?thesis by (simp only: sum_mset_sum_list)
qed

lemma lookup_fillBreakdown:
  "''__proto__'' \<notin> category ` set es \<Longrightarrow>
   lookup (fillBreakdown es) c =
     (if c \<in> category ` set es
      then Some (sum_list (map amount (filter (\<lambda>e. category e = c) es))) else None)"
  by (simp add: fillBreakdown_def lookup_foldl)

lemma lookup_fillBreakdown_mset:
  assumes "mset es' = mset es" and np: "''__proto__'' \<notin> category ` set es"
  shows "lookup (fillBreakdown es') c = lookup (fillBreakdown es) c"
proof -
  have same: "set es' = set es" using assms(1) by (rule mset_eq_setD)
  then have np': "''__proto__'' \<notin> category ` set es'" using np by simp
  have "sum_list (map amount (filter (\<lambda>e. category e = c) es'))
      = sum_list (map amount (filter (\<lambda>e. category e = c) es))"
    using assms(1) by (rule sum_list_filter_mset)
  then show ?thesis
    by (simp add: lookup_fillBreakdown [OF np] lookup_fillBreakdown [OF np'] same)
qed

lemma set_fillBreakdown_mset:
  assumes "mset es' = mset es" and np: "''__proto__'' \<notin> category ` set es"
  shows "set (fillBreakdown es') = set (fillBreakdown es)"
proof -
  have "(k, w) \<in> set (fillBreakdown es') \<longleftrightarrow> (k, w) \<in> set (fillBreakdown es)" for k w
    using lookup_fillBreakdown_mset [OF assms, of k]
    by (simp add: lookup_distinct [OF fillBreakdown_distinct, symmetric])
  then show ?thesis by auto
qed

lemma top_entry:
  assumes d: "distinct (keys eb)" and ne: "eb \<noteq> []"
  shows "(topCategory eb, orZero (lookup eb (topCategory eb))) \<in> set eb
         \<and> (\<forall>(k, w)\<in>set eb. w \<le> orZero (lookup eb (topCategory eb)))"
proof -
  from topCategory_split [OF d ne]
  obtain pre v post where s: "eb = pre @ (topCategory eb, v) # post"
      "\<forall>(k, w)\<in>set pre. w \<le> v" "\<forall>(k, w)\<in>set post. w < v"
    by blast
  have mem: "(topCategory eb, v) \<in> set eb"
    by (subst s(1)) simp
  have "lookup eb (topCategory eb) = Some v"
    using mem lookup_distinct [OF d] by blast
  then have big: "orZero (lookup eb (topCategory eb)) = v"
    by simp
  have "\<forall>(k, w)\<in>set (pre @ (topCategory eb, v) # post). w \<le> v"
    using s(2,3) by fastforce
  then have "\<forall>(k, w)\<in>set eb. w \<le> v"
    using s(1) by simp
  then show ?thesis using mem big by simp
qed

lemma top_same_entries:
  assumes d: "distinct (keys eb)" and d': "distinct (keys eb')" and same: "set eb = set eb'"
  shows "orZero (lookup eb' (topCategory eb')) = orZero (lookup eb (topCategory eb))"
    and "(\<forall>(k, w)\<in>set eb. k \<noteq> topCategory eb \<longrightarrow> w < orZero (lookup eb (topCategory eb)))
         \<Longrightarrow> topCategory eb' = topCategory eb"
proof -
  show big: "orZero (lookup eb' (topCategory eb')) = orZero (lookup eb (topCategory eb))"
  proof (cases "eb = []")
    case True
    then have "eb' = []" using same by simp
    then show ?thesis using True by simp
  next
    case False
    then have ne': "eb' \<noteq> []" using same by auto
    define b where "b = orZero (lookup eb (topCategory eb))"
    define b' where "b' = orZero (lookup eb' (topCategory eb'))"
    have m: "(topCategory eb, b) \<in> set eb" and u: "\<forall>(k, w)\<in>set eb. w \<le> b"
      using top_entry [OF d False] by (simp_all add: b_def)
    have m': "(topCategory eb', b') \<in> set eb'" and u': "\<forall>(k, w)\<in>set eb'. w \<le> b'"
      using top_entry [OF d' ne'] by (simp_all add: b'_def)
    have "(topCategory eb, b) \<in> set eb'" using m same by simp
    with u' have le1: "b \<le> b'" by fastforce
    have "(topCategory eb', b') \<in> set eb" using m' same by simp
    with u have le2: "b' \<le> b" by fastforce
    from le1 le2 have "b' = b" by simp
    then show ?thesis by (simp only: b_def b'_def)
  qed
  assume uniq: "\<forall>(k, w)\<in>set eb. k \<noteq> topCategory eb \<longrightarrow> w < orZero (lookup eb (topCategory eb))"
  show "topCategory eb' = topCategory eb"
  proof (cases "eb = []")
    case True
    then have "eb' = []" using same by simp
    then show ?thesis using True by simp
  next
    case False
    then have ne': "eb' \<noteq> []" using same by auto
    have "(topCategory eb', orZero (lookup eb' (topCategory eb'))) \<in> set eb"
      using top_entry [OF d' ne'] same by simp
    then have mem: "(topCategory eb', orZero (lookup eb (topCategory eb))) \<in> set eb"
      by (simp only: big)
    show ?thesis
    proof (rule ccontr)
      assume "topCategory eb' \<noteq> topCategory eb"
      with uniq mem
      have "orZero (lookup eb (topCategory eb)) < orZero (lookup eb (topCategory eb))"
        by fastforce
      then show False by simp
    qed
  qed
qed

lemma scenario_top:
  "topExpenseCategory (financialSnapshot scenarioTransactions) = ''Food & Dining''"
  "biggestExpense (financialSnapshot scenarioTransactions) = 1200"
  by (simp_all add: snapshot_topExpenseCategory snapshot_biggestExpense scenario_breakdown
        topCategory_def pickLarger_def)

text \<open>
  Claim C8 as written: every permutation of a transaction list gives the identical
  snapshot, dominant category included. Swapping the two tied expenses changes the top
  category from shopping to food, so the two snapshots differ.
\<close>

theorem snapshot_depends_on_order:
  "mset (rev tiedTransactions) = mset tiedTransactions
   \<and> topExpenseCategory (financialSnapshot tiedTransactions) = ''Shopping''
   \<and> topExpenseCategory (financialSnapshot (rev tiedTransactions)) = ''Food & Dining''
   \<and> financialSnapshot (rev tiedTransactions) \<noteq> financialSnapshot tiedTransactions"
proof -
  have "topExpenseCategory (financialSnapshot (rev tiedTransactions))
        \<noteq> topExpenseCategory (financialSnapshot tiedTransactions)"
    by (simp add: tied_fields tied_rev_fields)
  then have "financialSnapshot (rev tiedTransactions) \<noteq> financialSnapshot tiedTransactions"
    by (rule contrapos_nn) simp
  then show ?thesis
    by (simp add: tied_fields tied_rev_fields)
qed

text \<open>
  Claim C8, amended: for every transaction list whose expense categories are ordinary
  labels and whose amounts are whole numbers adding up to at most \<open>2^53\<close> in absolute
  value, and for every permutation of it, the two snapshots agree on total income, total
  expenses, balance, savings rate, the entries of the expense breakdown (the same amount
  for every category), the biggest expense and the trend; they agree on the top category
  as well whenever every other category has a strictly smaller amount than the top one.
  Loading the same list twice leaves the same financial data as loading it once.
\<close>

theorem snapshot_permutation_invariant:
  assumes perm: "mset txs' = mset txs"
      and labels: "ordinaryCategories txs"
      and whole: "wholeAmounts (map amount txs)"
  shows "totalIncome (financialSnapshot txs') = totalIncome (financialSnapshot txs)
   \<and> totalExpenses (financialSnapshot txs') = totalExpenses (financialSnapshot txs)
   \<and> balance (financialSnapshot txs') = balance (financialSnapshot txs)
   \<and> savingsRate (financialSnapshot txs') = savingsRate (financialSnapshot txs)
   \<and> set (expenseBreakdown (financialSnapshot txs'))
        = set (expenseBreakdown (financialSnapshot txs))
   \<and> lookup (expenseBreakdown (financialSnapshot txs')) c
        = lookup (expenseBreakdown (financialSnapshot txs)) c
   \<and> biggestExpense (financialSnapshot txs') = biggestExpense (financialSnapshot txs)
   \<and> monthlyTrend (financialSnapshot txs') = monthlyTrend (financialSnapshot txs)
   \<and> ((\<forall>(k, w)\<in>set (expenseBreakdown (financialSnapshot txs)).
          k \<noteq> topExpenseCategory (financialSnapshot txs)
          \<longrightarrow> w < biggestExpense (financialSnapshot txs))
        \<longrightarrow> topExpenseCategory (financialSnapshot txs')
              = topExpenseCategory (financialSnapshot txs))
   \<and> loadFinancialData (Rows txs) (loadFinancialData (Rows txs) st)
        = loadFinancialData (Rows txs) st"
proof -
  let ?S = "financialSnapshot txs" and ?S' = "financialSnapshot txs'"
  let ?es = "filter (\<lambda>t. type_txn t = Expense) txs"
  let ?es' = "filter (\<lambda>t. type_txn t = Expense) txs'"
  have inc: "totalIncome ?S' = totalIncome ?S"
    by (simp add: snapshot_totalIncome sum_list_filter_mset [OF perm])
  have exp: "totalExpenses ?S' = totalExpenses ?S"
    by (simp add: snapshot_totalExpenses sum_list_filter_mset [OF perm])
  have bal: "balance ?S' = balance ?S"
    by (simp add: snapshot_balance inc exp)
  have rate: "savingsRate ?S' = savingsRate ?S"
    by (simp add: snapshot_savingsRate inc bal)
  have trend: "monthlyTrend ?S' = monthlyTrend ?S"
    by (simp add: snapshot_monthlyTrend bal)
  have es: "mset ?es' = mset ?es"
    using perm by simp
  note np = ordinaryCategories_not_proto [OF labels]
  have entries: "set (expenseBreakdown ?S') = set (expenseBreakdown ?S)"
    by (simp add: snapshot_expenseBreakdown set_fillBreakdown_mset [OF es np])
  have look: "lookup (expenseBreakdown ?S') c = lookup (expenseBreakdown ?S) c"
    by (simp add: snapshot_expenseBreakdown lookup_fillBreakdown_mset [OF es np])
  have d: "distinct (keys (expenseBreakdown ?S))" "distinct (keys (expenseBreakdown ?S'))"
    by (simp_all add: snapshot_expenseBreakdown fillBreakdown_distinct)
  have big: "biggestExpense ?S' = biggestExpense ?S"
    using top_same_entries(1) [OF d entries [symmetric]]
    by (simp add: snapshot_biggestExpense snapshot_topExpenseCategory)
  have top: "(\<forall>(k, w)\<in>set (expenseBreakdown ?S).
          k \<noteq> topExpenseCategory ?S \<longrightarrow> w < biggestExpense ?S)
        \<longrightarrow> topExpenseCategory ?S' = topExpenseCategory ?S"
    using top_same_entries(2) [OF d entries [symmetric]]
    by (simp add: snapshot_biggestExpense snapshot_topExpenseCategory)
  have idem: "loadFinancialData (Rows txs) (loadFinancialData (Rows txs) st)
        = loadFinancialData (Rows txs) st"
    by (simp add: loadFinancialData_def)
  show ?thesis
    by (intro conjI inc exp bal rate entries look big trend top idem)
qed

theorem snapshot_permutation_invariant_witness:
  "totalIncome (financialSnapshot (rev scenarioTransactions)) = 5000
   \<and> totalExpenses (financialSnapshot (rev scenarioTransactions)) = 2000
   \<and> topExpenseCategory (financialSnapshot (rev scenarioTransactions)) = ''Food & Dining''
   \<and> savingsRate (financialSnapshot (rev scenarioTransactions)) = 60
   \<and> biggestExpense (financialSnapshot (rev scenarioTransactions)) = 1200"
proof -
  have perm: "mset (rev scenarioTransactions) = mset scenarioTransactions"
    by simp
  show ?thesis
    using snapshot_permutation_invariant
            [OF perm scenario_ordinary scenario_whole, of "''Shopping''" None]
    by (simp add: scenario_breakdown scenario_top scenario_savingsRate
          scenario_totalIncome scenario_totalExpenses)
qed

end
